theory Spec2Isabelle
  imports Complex_Main "HOL-Library.AList"
begin

section \<open>Posture-Check: the pose engine and the analyze endpoint\<close>

text \<open>
  A shallow embedding of \<^verbatim>\<open>backend/app/pose_engine.py\<close> and of the analyze
  endpoint of \<^verbatim>\<open>backend/app/main.py\<close>.

  Conventions of the embedding.
  \<^item> Python floats are modelled as \<^typ>\<open>real\<close>: comparisons, subtraction and the mean
    are exact, and no value is NaN or infinite.
  \<^item> A Python \<^verbatim>\<open>dict\<close> is an association list in insertion order; a dict has
    distinct keys, and \<^const>\<open>map_of\<close> is its lookup.
  \<^item> A raised exception is the \<open>Inl\<close> branch of a sum.
  \<^item> What the module reads from outside the repository is a field of the record
    \<open>env\<close>: the table of \<^verbatim>\<open>angles.json\<close>, the landmark enumeration of the pose
    library, the image decoder and the pose model. The decoder, which is
    \<^verbatim>\<open>cv2.imdecode\<close> on the buffer of the upload, returns a frame, returns
    \<^verbatim>\<open>None\<close> for bytes that are no image (\<open>Inr None\<close>), or raises (\<open>Inl\<close>):
    it raises \<^verbatim>\<open>cv2.error\<close> on an empty buffer. The pose model gives \<open>None\<close>
    when \<^verbatim>\<open>results.pose_landmarks\<close> is empty, and is taken to return.
\<close>

subsection \<open>Data\<close>

datatype error = KeyError | IndexError | ValueError string | CvError

type_synonym point = "real \<times> real \<times> real"

type_synonym landmarks = "point list"

type_synonym angles = "(string \<times> real) list"

record angle_range =
  angle_min :: real
  angle_max :: real

type_synonym pose_data = "(string \<times> angle_range) list"

type_synonym catalog = "(string \<times> pose_data) list"

text \<open>
  A hint is the text \<^verbatim>\<open>"<Joint Title>: increase by <diff, one decimal>"\<close> (or
  \<^verbatim>\<open>decrease\<close>). The text is a function of the direction, the joint name and the
  deviation, and the hint is kept in that form; the rendering to characters is not modelled.
\<close>

datatype hint = Increase string real | Decrease string real

record 'f env =
  ANGLE_DATA :: catalog
  POSE_LMS :: "(string \<times> nat) list"
  imdecode :: "string \<Rightarrow> error + 'f option"
  pose_process :: "'f \<Rightarrow> landmarks option"

definition POSE_LIST :: "catalog \<Rightarrow> string list" where
  "POSE_LIST angle_data = map fst angle_data"

definition JOINTS :: "(string \<times> string \<times> string \<times> string) list" where
  "JOINTS =
    [(''left_knee'', ''LEFT_HIP'', ''LEFT_KNEE'', ''LEFT_ANKLE''),
     (''right_knee'', ''RIGHT_HIP'', ''RIGHT_KNEE'', ''RIGHT_ANKLE''),
     (''left_elbow'', ''LEFT_SHOULDER'', ''LEFT_ELBOW'', ''LEFT_WRIST''),
     (''right_elbow'', ''RIGHT_SHOULDER'', ''RIGHT_ELBOW'', ''RIGHT_WRIST''),
     (''left_shoulder'', ''LEFT_ELBOW'', ''LEFT_SHOULDER'', ''LEFT_HIP''),
     (''right_shoulder'', ''RIGHT_ELBOW'', ''RIGHT_SHOULDER'', ''RIGHT_HIP''),
     (''left_hip'', ''RIGHT_HIP'', ''LEFT_HIP'', ''LEFT_KNEE''),
     (''right_hip'', ''LEFT_HIP'', ''RIGHT_HIP'', ''RIGHT_KNEE''),
     (''neck'', ''LEFT_SHOULDER'', ''NOSE'', ''RIGHT_SHOULDER''),
     (''spine'', ''LEFT_HIP'', ''RIGHT_HIP'', ''NOSE'')]"

subsection \<open>The angle at a joint\<close>

definition vsub :: "point \<Rightarrow> point \<Rightarrow> point" where
  "vsub a b = (case a of (ax, ay, az) \<Rightarrow> case b of (bx, by', bz) \<Rightarrow>
     (ax - bx, ay - by', az - bz))"

definition dot :: "point \<Rightarrow> point \<Rightarrow> real" where
  "dot a b = (case a of (ax, ay, az) \<Rightarrow> case b of (bx, by', bz) \<Rightarrow>
     ax * bx + ay * by' + az * bz)"

definition linalg_norm :: "point \<Rightarrow> real" where
  "linalg_norm v = sqrt (dot v v)"

definition clip :: "real \<Rightarrow> real \<Rightarrow> real \<Rightarrow> real" where
  "clip x lo hi = min (max x lo) hi"

definition degrees :: "real \<Rightarrow> real" where
  "degrees x = x * 180 / pi"

definition calculate_angle :: "point \<Rightarrow> point \<Rightarrow> point \<Rightarrow> real option" where
  "calculate_angle a b c =
     (let v1 = vsub a b; v2 = vsub c b;
          denom = linalg_norm v1 * linalg_norm v2
      in if denom = 0 then None
         else Some (degrees (arccos (clip (dot v1 v2 / denom) (- 1) 1))))"

text \<open>
  \<^verbatim>\<open>landmarks[POSE_LMS[name].value]\<close>: a name outside the enumeration raises
  \<^verbatim>\<open>KeyError\<close>, an index beyond the landmark sequence raises \<^verbatim>\<open>IndexError\<close>.
\<close>

definition get_landmark_point :: "(string \<times> nat) list \<Rightarrow> landmarks \<Rightarrow> string \<Rightarrow> error + point" where
  "get_landmark_point lms landmarks name =
     (case map_of lms name of
        None \<Rightarrow> Inl KeyError
      | Some i \<Rightarrow> if i < length landmarks then Inr (landmarks ! i) else Inl IndexError)"

text \<open>The body of the \<^verbatim>\<open>try\<close> block of \<^verbatim>\<open>get_all_angles\<close>, for one joint.\<close>

definition joint_angle :: "(string \<times> nat) list \<Rightarrow> landmarks \<Rightarrow> string \<times> string \<times> string \<Rightarrow> error + real option" where
  "joint_angle lms landmarks ps =
     (case ps of (p1, p2, p3) \<Rightarrow>
        (case get_landmark_point lms landmarks p1 of Inl e \<Rightarrow> Inl e | Inr a \<Rightarrow>
        (case get_landmark_point lms landmarks p2 of Inl e \<Rightarrow> Inl e | Inr b \<Rightarrow>
        (case get_landmark_point lms landmarks p3 of Inl e \<Rightarrow> Inl e | Inr c \<Rightarrow>
           Inr (calculate_angle a b c)))))"

text \<open>
  The loop of \<^verbatim>\<open>get_all_angles\<close>: \<^verbatim>\<open>except Exception: pass\<close> keeps the mapping
  as it is, and \<^verbatim>\<open>angles[j] = ang\<close> is the dict assignment \<^const>\<open>AList.update\<close>.
\<close>

fun get_all_angles_loop :: "(string \<times> nat) list \<Rightarrow> landmarks \<Rightarrow>
    (string \<times> string \<times> string \<times> string) list \<Rightarrow> angles \<Rightarrow> angles" where
  "get_all_angles_loop lms landmarks [] angles = angles"
| "get_all_angles_loop lms landmarks ((j, ps) # rest) angles =
     get_all_angles_loop lms landmarks rest
       (case joint_angle lms landmarks ps of
          Inl e \<Rightarrow> angles
        | Inr None \<Rightarrow> angles
        | Inr (Some ang) \<Rightarrow> AList.update j ang angles)"

definition get_all_angles :: "(string \<times> nat) list \<Rightarrow> landmarks \<Rightarrow> angles" where
  "get_all_angles lms landmarks = get_all_angles_loop lms landmarks JOINTS []"

subsection \<open>The comparator\<close>

fun compare_loop :: "pose_data \<Rightarrow> angles \<Rightarrow> real list \<times> hint list \<Rightarrow> real list \<times> hint list" where
  "compare_loop data [] acc = acc"
| "compare_loop data ((joint, val) # rest) (diffs', hints) =
     (case map_of data joint of
        None \<Rightarrow> compare_loop data rest (diffs', hints)
      | Some r \<Rightarrow>
          let mn = angle_min r; mx = angle_max r in
          if val < mn then
            compare_loop data rest (diffs' @ [mn - val], hints @ [Increase joint (mn - val)])
          else if val > mx then
            compare_loop data rest (diffs' @ [val - mx], hints @ [Decrease joint (val - mx)])
          else compare_loop data rest (diffs' @ [0], hints))"

definition mean :: "real list \<Rightarrow> real" where
  "mean diffs' = sum_list diffs' / real (length diffs')"

text \<open>
  \<^verbatim>\<open>ANGLE_DATA[pose_name]\<close> raises \<^verbatim>\<open>KeyError\<close> for a name that is not a key; the
  keys of the table are strings, so \<^verbatim>\<open>None\<close> is not one of them.
\<close>

definition compare_pose :: "catalog \<Rightarrow> angles \<Rightarrow> string option \<Rightarrow> error + (real \<times> hint list)" where
  "compare_pose angle_data user_angles pose_name =
     (case pose_name of
        None \<Rightarrow> Inl KeyError
      | Some name \<Rightarrow>
          (case map_of angle_data name of
             None \<Rightarrow> Inl KeyError
           | Some data \<Rightarrow>
               (case compare_loop data user_angles ([], []) of (diffs', hints) \<Rightarrow>
                  Inr (if diffs' \<noteq> [] then mean diffs' else 999, hints))))"

subsection \<open>The auto-detector\<close>

fun auto_detect_loop :: "catalog \<Rightarrow> angles \<Rightarrow> string list \<Rightarrow> string option \<times> real \<Rightarrow>
    error + (string option \<times> real)" where
  "auto_detect_loop angle_data user_angles [] best = Inr best"
| "auto_detect_loop angle_data user_angles (pose # rest) (best_pose, best_score) =
     (case compare_pose angle_data user_angles (Some pose) of
        Inl e \<Rightarrow> Inl e
      | Inr (score, _) \<Rightarrow>
          if score < best_score
          then auto_detect_loop angle_data user_angles rest (Some pose, score)
          else auto_detect_loop angle_data user_angles rest (best_pose, best_score))"

definition auto_detect_pose :: "catalog \<Rightarrow> angles \<Rightarrow> error + (string option \<times> real)" where
  "auto_detect_pose angle_data user_angles =
     auto_detect_loop angle_data user_angles (POSE_LIST angle_data) (None, 999)"

subsection \<open>The analysis orchestrator\<close>

definition analyze_image :: "'f env \<Rightarrow> 'f \<Rightarrow> string option \<Rightarrow>
    error + (string option \<times> real \<times> hint list \<times> angles)" where
  "analyze_image e image_bgr pose_name =
     (case pose_process e image_bgr of
        None \<Rightarrow> Inl (ValueError ''No pose detected'')
      | Some lm \<Rightarrow>
          (let user_angles = get_all_angles (POSE_LMS e) lm in
           (case (case pose_name of
                    None \<Rightarrow> auto_detect_pose (ANGLE_DATA e) user_angles
                  | Some name \<Rightarrow>
                      (case compare_pose (ANGLE_DATA e) user_angles (Some name) of
                         Inl err \<Rightarrow> Inl err
                       | Inr (score, _) \<Rightarrow> Inr (Some name, score))) of
              Inl err \<Rightarrow> Inl err
            | Inr (pose_name', score) \<Rightarrow>
                (case compare_pose (ANGLE_DATA e) user_angles pose_name' of
                   Inl err \<Rightarrow> Inl err
                 | Inr (_, hints) \<Rightarrow> Inr (pose_name', score, hints, user_angles)))))"

subsection \<open>The analyze endpoint and the attempt store\<close>

text \<open>
  The persisted record of \<^verbatim>\<open>models.py\<close>; the identity and the creation time are
  assigned by the store and are not modelled. The hint column holds the hints joined by
  \<^verbatim>\<open>" | "\<close>; the model keeps the list. The store is the list of records in the order
  of insertion.
\<close>

record PoseAttempt =
  attempt_pose_name :: "string option"
  attempt_score :: real
  attempt_success :: bool
  attempt_hints :: "hint list"

record PoseAnalysisResponse =
  response_pose_name :: "string option"
  response_score :: real
  response_hints :: "hint list"
  response_angles :: angles

text \<open>
  The outcome of a request: the response, an \<^verbatim>\<open>HTTPException\<close> with its status
  code and detail, or an exception that no handler of the endpoint catches. The decoder
  is called before the \<^verbatim>\<open>try\<close> block, so nothing it raises is caught; inside the
  block only \<^verbatim>\<open>ValueError\<close> is.
\<close>

datatype outcome = Response PoseAnalysisResponse | HTTPException nat string | Unhandled error

definition truthy :: "string option \<Rightarrow> bool" where
  "truthy s = (case s of None \<Rightarrow> False | Some t \<Rightarrow> t \<noteq> [])"

definition analyze_pose :: "'f env \<Rightarrow> PoseAttempt list \<Rightarrow> string \<Rightarrow> string \<Rightarrow> string option \<Rightarrow>
    outcome \<times> PoseAttempt list" where
  "analyze_pose e db contents mode pose_name =
     (case imdecode e contents of
        Inl err \<Rightarrow> (Unhandled err, db)
      | Inr None \<Rightarrow> (HTTPException 400 ''Invalid image'', db)
      | Inr (Some frame) \<Rightarrow>
          (let effective_pose_name =
                 (if mode = ''manual'' \<and> truthy pose_name then pose_name else None) in
           (case analyze_image e frame effective_pose_name of
              Inl (ValueError msg) \<Rightarrow> (HTTPException 400 msg, db)
            | Inl KeyError \<Rightarrow> (Unhandled KeyError, db)
            | Inl IndexError \<Rightarrow> (Unhandled IndexError, db)
            | Inl CvError \<Rightarrow> (Unhandled CvError, db)
            | Inr (pose_name_actual, score, hints, angles) \<Rightarrow>
                (Response \<lparr>response_pose_name = pose_name_actual, response_score = score,
                           response_hints = hints, response_angles = angles\<rparr>,
                 db @ [\<lparr>attempt_pose_name = pose_name_actual, attempt_score = score,
                        attempt_success = (score < 10), attempt_hints = hints\<rparr>]))))"

subsection \<open>Specification-side notions\<close>

text \<open>
  The joints that the comparator compares, in the words of the specification: the joints of
  the measurement, in its order, that the reference ranges of the pose also hold, each with
  its measured value and its range.
\<close>

definition compared_joints :: "pose_data \<Rightarrow> angles \<Rightarrow> (string \<times> real \<times> angle_range) list" where
  "compared_joints data user_angles =
     List.map_filter
       (\<lambda>(joint, val). case map_of data joint of None \<Rightarrow> None | Some r \<Rightarrow> Some (joint, val, r))
       user_angles"

text \<open>The deviation and the hints of one compared joint.\<close>

definition deviation :: "real \<Rightarrow> angle_range \<Rightarrow> real" where
  "deviation val r =
     (if val < angle_min r then angle_min r - val
      else if val > angle_max r then val - angle_max r else 0)"

definition joint_hints :: "string \<Rightarrow> real \<Rightarrow> angle_range \<Rightarrow> hint list" where
  "joint_hints joint val r =
     (if val < angle_min r then [Increase joint (angle_min r - val)]
      else if val > angle_max r then [Decrease joint (val - angle_max r)] else [])"

text \<open>
  The comparator's score of a pose of the table. For a name outside the table the
  comparator raises and there is no score; the value 999 there is never used below.
\<close>

definition score_of :: "catalog \<Rightarrow> angles \<Rightarrow> string \<Rightarrow> real" where
  "score_of angle_data user_angles pose =
     (case compare_pose angle_data user_angles (Some pose) of Inl e \<Rightarrow> 999 | Inr (s, hs) \<Rightarrow> s)"

text \<open>What the try block of the angle extractor contributes for one entry of \<^const>\<open>JOINTS\<close>.\<close>

definition joint_entry :: "(string \<times> nat) list \<Rightarrow> landmarks \<Rightarrow> string \<times> string \<times> string \<times> string \<Rightarrow>
    (string \<times> real) option" where
  "joint_entry lms landmarks jp =
     (case jp of (j, ps) \<Rightarrow>
        (case joint_angle lms landmarks ps of
           Inl e \<Rightarrow> None
         | Inr None \<Rightarrow> None
         | Inr (Some ang) \<Rightarrow> Some (j, ang)))"

subsection \<open>Example data\<close>

text \<open>
  A two-pose table in the shape of \<^verbatim>\<open>angles.json\<close>, the landmark enumeration of the
  pose library (33 names, numbered from 0), and five uploads: the empty one, on which the
  decoder raises, one that is no image, one without a body, one whose landmarks all
  coincide, and one with the left knee bent at a right angle.
\<close>

definition example_catalog :: catalog where
  "example_catalog =
    [(''Tree'', [(''left_knee'', \<lparr>angle_min = 160, angle_max = 180\<rparr>),
                 (''right_knee'', \<lparr>angle_min = 80, angle_max = 100\<rparr>)]),
     (''Warrior'', [(''left_knee'', \<lparr>angle_min = 100, angle_max = 120\<rparr>)])]"

definition example_lms :: "(string \<times> nat) list" where
  "example_lms =
    [(''NOSE'', 0), (''LEFT_EYE_INNER'', 1), (''LEFT_EYE'', 2), (''LEFT_EYE_OUTER'', 3),
     (''RIGHT_EYE_INNER'', 4), (''RIGHT_EYE'', 5), (''RIGHT_EYE_OUTER'', 6),
     (''LEFT_EAR'', 7), (''RIGHT_EAR'', 8), (''MOUTH_LEFT'', 9), (''MOUTH_RIGHT'', 10),
     (''LEFT_SHOULDER'', 11), (''RIGHT_SHOULDER'', 12), (''LEFT_ELBOW'', 13),
     (''RIGHT_ELBOW'', 14), (''LEFT_WRIST'', 15), (''RIGHT_WRIST'', 16),
     (''LEFT_PINKY'', 17), (''RIGHT_PINKY'', 18), (''LEFT_INDEX'', 19),
     (''RIGHT_INDEX'', 20), (''LEFT_THUMB'', 21), (''RIGHT_THUMB'', 22),
     (''LEFT_HIP'', 23), (''RIGHT_HIP'', 24), (''LEFT_KNEE'', 25), (''RIGHT_KNEE'', 26),
     (''LEFT_ANKLE'', 27), (''RIGHT_ANKLE'', 28), (''LEFT_HEEL'', 29),
     (''RIGHT_HEEL'', 30), (''LEFT_FOOT_INDEX'', 31), (''RIGHT_FOOT_INDEX'', 32)]"

definition still_landmarks :: landmarks where
  "still_landmarks = replicate 33 (0, 0, 0)"

definition bent_landmarks :: landmarks where
  "bent_landmarks = (replicate 33 (0, 0, 0))[23 := (1, 0, 0), 27 := (0, 1, 0)]"

definition example_env :: "string env" where
  "example_env =
    \<lparr>ANGLE_DATA = example_catalog,
     POSE_LMS = example_lms,
     imdecode = (\<lambda>contents.
        if contents = [] then Inl CvError
        else if contents = ''junk'' then Inr None
        else Inr (Some contents)),
     pose_process = (\<lambda>frame.
        if frame = ''blank'' then None
        else if frame = ''still'' then Some still_landmarks
        else Some bent_landmarks)\<rparr>"

subsection \<open>The comparator, joint by joint\<close>

lemma compared_joints_Nil: "compared_joints data [] = []"
  by (simp add: compared_joints_def)

lemma compared_joints_Cons:
  "compared_joints data ((joint, val) # rest) =
     (case map_of data joint of
        None \<Rightarrow> compared_joints data rest
      | Some r \<Rightarrow> (joint, val, r) # compared_joints data rest)"
  by (simp add: compared_joints_def split: option.splits)

text \<open>The loop, with any accumulators: it appends one deviation per compared joint.\<close>

lemma compare_loop_acc:
  "compare_loop data user_angles (ds, hs) =
     (ds @ map (\<lambda>(j, v, r). deviation v r) (compared_joints data user_angles),
      hs @ concat (map (\<lambda>(j, v, r). joint_hints j v r) (compared_joints data user_angles)))"
proof (induction user_angles arbitrary: ds hs)
  case Nil
  show ?case by (simp add: compared_joints_Nil)
next
  case (Cons p rest)
  obtain joint val where p: "p = (joint, val)" by (cases p)
  show ?case
  proof (cases "map_of data joint")
    case None
    then show ?thesis by (simp add: p compared_joints_Cons Cons.IH)
  next
    case (Some r)
    then show ?thesis
      by (simp add: p compared_joints_Cons deviation_def joint_hints_def Let_def Cons.IH)
  qed
qed

lemma compare_pose_known:
  assumes "map_of angle_data name = Some data"
  shows "compare_pose angle_data user_angles (Some name) =
     Inr (if compared_joints data user_angles \<noteq> []
          then mean (map (\<lambda>(j, v, r). deviation v r) (compared_joints data user_angles))
          else 999,
          concat (map (\<lambda>(j, v, r). joint_hints j v r) (compared_joints data user_angles)))"
  using assms by (simp add: compare_pose_def compare_loop_acc)

lemma deviation_nonneg: "0 \<le> deviation v r"
  by (simp add: deviation_def)

lemma mean_nonneg: "(\<And>d. d \<in> set ds \<Longrightarrow> 0 \<le> d) \<Longrightarrow> 0 \<le> mean ds"
  by (simp add: mean_def sum_list_nonneg)

lemma in_POSE_LIST_iff:
  "name \<in> set (POSE_LIST angle_data) \<longleftrightarrow> (\<exists>data. map_of angle_data name = Some data)"
proof -
  have "(name \<in> fst ` set angle_data) = (map_of angle_data name \<noteq> None)"
    by (simp add: map_of_eq_None_iff)
  then show ?thesis by (simp add: POSE_LIST_def)
qed

lemma compared_joints_range:
  "(j, v, r) \<in> set (compared_joints data user_angles) \<Longrightarrow>
     map_of data j = Some r \<and> (j, v) \<in> set user_angles"
proof (induction user_angles)
  case Nil
  then show ?case by (simp add: compared_joints_Nil)
next
  case (Cons p rest)
  obtain joint val where p: "p = (joint, val)" by (cases p)
  from Cons show ?case
    by (cases "map_of data joint") (auto simp: p compared_joints_Cons)
qed

lemma compared_joints_empty:
  "fst ` set user_angles \<inter> fst ` set data = {} \<Longrightarrow> compared_joints data user_angles = []"
proof (induction user_angles)
  case Nil
  show ?case by (simp add: compared_joints_Nil)
next
  case (Cons p rest)
  obtain joint val where p: "p = (joint, val)" by (cases p)
  from Cons.prems have "joint \<notin> fst ` set data" by (auto simp: p)
  then have "map_of data joint = None" by (simp add: map_of_eq_None_iff)
  moreover from Cons have "compared_joints data rest = []" by auto
  ultimately show ?case by (simp add: p compared_joints_Cons)
qed

lemma compared_joints_filter:
  "map (\<lambda>(j, v, r). (j, v)) (compared_joints data user_angles) =
     filter (\<lambda>(j, v). j \<in> fst ` set data) user_angles"
proof (induction user_angles)
  case Nil
  show ?case by (simp add: compared_joints_Nil)
next
  case (Cons p rest)
  obtain joint val where p: "p = (joint, val)" by (cases p)
  show ?case
  proof (cases "map_of data joint")
    case None
    then have "joint \<notin> fst ` set data" by (simp add: map_of_eq_None_iff)
    with None Cons.IH show ?thesis by (simp add: p compared_joints_Cons)
  next
    case (Some r)
    then have "(joint, r) \<in> set data" by (rule map_of_SomeD)
    then have "joint \<in> fst ` set data" by force
    with Some Cons.IH show ?thesis by (simp add: p compared_joints_Cons)
  qed
qed

lemma two_elements: "length xs = 2 \<Longrightarrow> xs = [xs ! 0, xs ! 1]"
  by (auto simp: numeral_2_eq_2 length_Suc_conv)

text \<open>
  Claim C2. For a pose of the table whose ranges have their minimum at most their maximum,
  the comparator looks at exactly the joints of \<^const>\<open>compared_joints\<close>: the entries
  of the measurement whose joint is a key of the pose's ranges, each with its range. Joint number
  \<open>i\<close> of them contributes the deviation \<open>ds ! i\<close> and the hints \<open>hs ! i\<close>: below the
  minimum, \<open>min - measured\<close> and one increase hint; above the maximum, \<open>measured - max\<close>
  and one decrease hint; from the minimum to the maximum, both included, 0 and no hint.
  The score is the mean of all the deviations (999 when there is none), and the hints are
  returned in the order of the joints.
\<close>

theorem compare_pose_per_joint:
  assumes "map_of angle_data name = Some data"
    and "\<forall>r \<in> snd ` set data. angle_min r \<le> angle_max r"
  shows "\<exists>ds hs.
      compare_pose angle_data user_angles (Some name) =
        Inr (if ds = [] then 999 else mean ds, concat hs)
    \<and> map (\<lambda>(j, v, r). (j, v)) (compared_joints data user_angles) =
        filter (\<lambda>(j, v). j \<in> fst ` set data) user_angles
    \<and> length ds = length (compared_joints data user_angles)
    \<and> length hs = length (compared_joints data user_angles)
    \<and> (\<forall>i < length (compared_joints data user_angles).
          case compared_joints data user_angles ! i of (j, v, r) \<Rightarrow>
            map_of data j = Some r
          \<and> (v < angle_min r \<longrightarrow>
               ds ! i = angle_min r - v \<and> hs ! i = [Increase j (angle_min r - v)])
          \<and> (angle_max r < v \<longrightarrow>
               ds ! i = v - angle_max r \<and> hs ! i = [Decrease j (v - angle_max r)])
          \<and> (angle_min r \<le> v \<and> v \<le> angle_max r \<longrightarrow> ds ! i = 0 \<and> hs ! i = []))"
proof -
  let ?cj = "compared_joints data user_angles"
  let ?ds = "map (\<lambda>(j, v, r). deviation v r) ?cj"
  let ?hs = "map (\<lambda>(j, v, r). joint_hints j v r) ?cj"
  have run: "compare_pose angle_data user_angles (Some name) =
      Inr (if ?ds = [] then 999 else mean ?ds, concat ?hs)"
    using assms(1) by (simp add: compare_pose_known)
  have each: "case ?cj ! i of (j, v, r) \<Rightarrow>
            map_of data j = Some r
          \<and> (v < angle_min r \<longrightarrow>
               ?ds ! i = angle_min r - v \<and> ?hs ! i = [Increase j (angle_min r - v)])
          \<and> (angle_max r < v \<longrightarrow>
               ?ds ! i = v - angle_max r \<and> ?hs ! i = [Decrease j (v - angle_max r)])
          \<and> (angle_min r \<le> v \<and> v \<le> angle_max r \<longrightarrow> ?ds ! i = 0 \<and> ?hs ! i = [])"
    if i: "i < length ?cj" for i
  proof -
    obtain j v r where jvr: "?cj ! i = (j, v, r)" by (cases "?cj ! i")
    with i have "(j, v, r) \<in> set ?cj" by (metis nth_mem)
    then have look: "map_of data j = Some r" by (rule compared_joints_range [THEN conjunct1])
    then have "(j, r) \<in> set data" by (rule map_of_SomeD)
    then have "r \<in> snd ` set data" by force
    with assms(2) have wf: "angle_min r \<le> angle_max r" by blast
    from i jvr wf look show ?thesis
      by (simp add: deviation_def joint_hints_def)
  qed
  from run each compared_joints_filter [of data user_angles] show ?thesis
    by (intro exI [of _ ?ds] exI [of _ ?hs]) simp
qed

theorem compare_pose_per_joint_witness:
  "compare_pose example_catalog [(''left_knee'', 150), (''right_knee'', 90)] (Some ''Tree'') =
     Inr (5, [Increase ''left_knee'' 10])"
proof -
  let ?lk = "\<lparr>angle_min = 160, angle_max = 180\<rparr> :: angle_range"
  let ?rk = "\<lparr>angle_min = 80, angle_max = 100\<rparr> :: angle_range"
  let ?data = "[(''left_knee'', ?lk), (''right_knee'', ?rk)]"
  let ?ua = "[(''left_knee'', 150), (''right_knee'', 90)] :: angles"
  have h1: "map_of example_catalog ''Tree'' = Some ?data"
    by (simp add: example_catalog_def)
  have h2: "\<forall>r \<in> snd ` set ?data. angle_min r \<le> angle_max r"
    by simp
  have cj: "compared_joints ?data ?ua = [(''left_knee'', 150, ?lk), (''right_knee'', 90, ?rk)]"
    by (simp add: compared_joints_def)
  from compare_pose_per_joint [OF h1 h2, of ?ua, unfolded cj] obtain ds hs where
    run: "compare_pose example_catalog ?ua (Some ''Tree'') =
        Inr (if ds = [] then 999 else mean ds, concat hs)"
    and len: "length ds = 2" "length hs = 2"
    and each: "\<And>i. i < 2 \<Longrightarrow>
        (case [(''left_knee'', 150, ?lk), (''right_knee'', 90, ?rk)] ! i of (j, v, r) \<Rightarrow>
            map_of ?data j = Some r
          \<and> (v < angle_min r \<longrightarrow>
               ds ! i = angle_min r - v \<and> hs ! i = [Increase j (angle_min r - v)])
          \<and> (angle_max r < v \<longrightarrow>
               ds ! i = v - angle_max r \<and> hs ! i = [Decrease j (v - angle_max r)])
          \<and> (angle_min r \<le> v \<and> v \<le> angle_max r \<longrightarrow> ds ! i = 0 \<and> hs ! i = []))"
    by auto
  from each [of 0] have first: "ds ! 0 = 10" "hs ! 0 = [Increase ''left_knee'' 10]"
    by simp_all
  from each [of 1] have second: "ds ! 1 = 0" "hs ! 1 = []"
    by simp_all
  from two_elements [OF len(1)] first second have ds: "ds = [10, 0]" by simp
  from two_elements [OF len(2)] first second have hs: "hs = [[Increase ''left_knee'' 10], []]"
    by simp
  show ?thesis unfolding run ds hs by (simp add: mean_def)
qed

text \<open>
  Claim C4. For a pose of the table, when no joint of the measurement is a joint of the
  pose's reference ranges, the comparator returns the score 999 and no hint.
\<close>

theorem compare_pose_no_common_joint:
  assumes "map_of angle_data name = Some data"
    and "fst ` set user_angles \<inter> fst ` set data = {}"
  shows "compare_pose angle_data user_angles (Some name) = Inr (999, [])"
  using assms by (simp add: compare_pose_known compared_joints_empty)

theorem compare_pose_no_common_joint_witness:
  "compare_pose example_catalog [(''neck'', 30)] (Some ''Warrior'') = Inr (999, [])"
proof -
  let ?data = "[(''left_knee'', \<lparr>angle_min = 100, angle_max = 120\<rparr>)] :: pose_data"
  have h1: "map_of example_catalog ''Warrior'' = Some ?data"
    by (simp add: example_catalog_def)
  have h2: "fst ` set [(''neck'', 30 :: real)] \<inter> fst ` set ?data = {}"
    by simp
  show ?thesis by (rule compare_pose_no_common_joint [OF h1 h2])
qed

text \<open>
  Claim C10. For every pose of the table the comparator returns a score, and the score is
  not negative: it is 999, or the mean of a non-empty list of deviations none of which is
  negative.
\<close>

theorem compare_pose_score_nonneg:
  assumes "name \<in> set (POSE_LIST angle_data)"
  shows "\<exists>s hs. compare_pose angle_data user_angles (Some name) = Inr (s, hs) \<and> 0 \<le> s
     \<and> (s = 999 \<or> (\<exists>ds. ds \<noteq> [] \<and> (\<forall>d \<in> set ds. 0 \<le> d) \<and> s = mean ds))"
proof -
  from assms obtain data where data: "map_of angle_data name = Some data"
    by (auto simp: in_POSE_LIST_iff)
  let ?ds = "map (\<lambda>(j, v, r). deviation v r) (compared_joints data user_angles)"
  have nonneg: "\<forall>d \<in> set ?ds. 0 \<le> d"
    by (auto simp: deviation_nonneg)
  show ?thesis
  proof (cases "compared_joints data user_angles = []")
    case True
    then show ?thesis using data by (simp add: compare_pose_known)
  next
    case False
    have pos: "0 \<le> mean ?ds" using nonneg by (intro mean_nonneg) blast
    have ne: "?ds \<noteq> []" using False by simp
    have run: "compare_pose angle_data user_angles (Some name) =
        Inr (mean ?ds,
             concat (map (\<lambda>(j, v, r). joint_hints j v r) (compared_joints data user_angles)))"
      using data False by (simp add: compare_pose_known)
    from ne nonneg
    have "\<exists>ds. ds \<noteq> [] \<and> (\<forall>d \<in> set ds. 0 \<le> d) \<and> mean ?ds = mean ds"
      by blast
    with run pos show ?thesis by blast
  qed
qed

theorem compare_pose_score_nonneg_witness:
  "\<exists>s hs. compare_pose example_catalog [(''left_knee'', 190)] (Some ''Tree'') = Inr (s, hs)
     \<and> 0 \<le> s"
proof -
  have h: "''Tree'' \<in> set (POSE_LIST example_catalog)"
    by (simp add: POSE_LIST_def example_catalog_def)
  from compare_pose_score_nonneg [OF h, of "[(''left_knee'', 190)]"]
  show ?thesis by blast
qed

subsection \<open>The auto-detector: what it returns\<close>

lemma compare_pose_catalog:
  assumes "pose \<in> set (POSE_LIST angle_data)"
  shows "\<exists>hs. compare_pose angle_data user_angles (Some pose) =
     Inr (score_of angle_data user_angles pose, hs)"
proof -
  from assms obtain data where "map_of angle_data pose = Some data"
    by (auto simp: in_POSE_LIST_iff)
  then show ?thesis by (simp add: score_of_def compare_pose_known)
qed

lemma auto_detect_loop_step:
  assumes "pose \<in> set (POSE_LIST angle_data)"
  shows "auto_detect_loop angle_data user_angles (pose # rest) (bp0, bs0) =
     (if score_of angle_data user_angles pose < bs0
      then auto_detect_loop angle_data user_angles rest
             (Some pose, score_of angle_data user_angles pose)
      else auto_detect_loop angle_data user_angles rest (bp0, bs0))"
proof -
  from compare_pose_catalog [OF assms] obtain hs where
    "compare_pose angle_data user_angles (Some pose) =
       Inr (score_of angle_data user_angles pose, hs)" ..
  then show ?thesis by simp
qed

lemma auto_detect_loop_result:
  assumes "set poses \<subseteq> set (POSE_LIST angle_data)"
  shows "\<exists>bp bs. auto_detect_loop angle_data user_angles poses (bp0, bs0) = Inr (bp, bs)
     \<and> bs \<le> bs0
     \<and> (\<forall>p \<in> set poses. bs \<le> score_of angle_data user_angles p)
     \<and> (if \<exists>p \<in> set poses. score_of angle_data user_angles p < bs0
        then \<exists>i < length poses. bp = Some (poses ! i)
               \<and> bs = score_of angle_data user_angles (poses ! i)
               \<and> (\<forall>k < i. bs < score_of angle_data user_angles (poses ! k))
        else bp = bp0 \<and> bs = bs0)"
  using assms
proof (induction poses arbitrary: bp0 bs0)
  case Nil
  show ?case by simp
next
  case (Cons p rest)
  let ?sc = "score_of angle_data user_angles"
  from Cons.prems have p_in: "p \<in> set (POSE_LIST angle_data)"
    and rest_in: "set rest \<subseteq> set (POSE_LIST angle_data)" by auto
  note step = auto_detect_loop_step [OF p_in, of user_angles rest bp0 bs0]
  show ?case
  proof (cases "?sc p < bs0")
    case True
    from Cons.IH [OF rest_in, of "Some p" "?sc p"] obtain bp bs where
      run: "auto_detect_loop angle_data user_angles rest (Some p, ?sc p) = Inr (bp, bs)"
      and le: "bs \<le> ?sc p"
      and low: "\<forall>q \<in> set rest. bs \<le> ?sc q"
      and pick: "if \<exists>q \<in> set rest. ?sc q < ?sc p
        then \<exists>i < length rest. bp = Some (rest ! i) \<and> bs = ?sc (rest ! i)
               \<and> (\<forall>k < i. bs < ?sc (rest ! k))
        else bp = Some p \<and> bs = ?sc p"
      by blast
    have "\<exists>i < length (p # rest). bp = Some ((p # rest) ! i) \<and> bs = ?sc ((p # rest) ! i)
               \<and> (\<forall>k < i. bs < ?sc ((p # rest) ! k))"
    proof (cases "\<exists>q \<in> set rest. ?sc q < ?sc p")
      case True
      with pick obtain i where i: "i < length rest" "bp = Some (rest ! i)" "bs = ?sc (rest ! i)"
        "\<forall>k < i. bs < ?sc (rest ! k)" by auto
      from True low have "bs < ?sc p" by fastforce
      with i have "\<forall>k < Suc i. bs < ?sc ((p # rest) ! k)"
        by (auto simp: less_Suc_eq_0_disj)
      with i show ?thesis by (intro exI [of _ "Suc i"]) simp
    next
      case False
      with pick have "bp = Some p" "bs = ?sc p" by auto
      then show ?thesis by (intro exI [of _ 0]) simp
    qed
    moreover have "\<exists>q \<in> set (p # rest). ?sc q < bs0" using True by simp
    moreover have "bs \<le> bs0" using le True by simp
    moreover have "\<forall>q \<in> set (p # rest). bs \<le> ?sc q" using le low by simp
    moreover have "auto_detect_loop angle_data user_angles (p # rest) (bp0, bs0) = Inr (bp, bs)"
      using step True run by simp
    ultimately show ?thesis by (intro exI [of _ bp] exI [of _ bs]) simp
  next
    case False
    from Cons.IH [OF rest_in, of bp0 bs0] obtain bp bs where
      run: "auto_detect_loop angle_data user_angles rest (bp0, bs0) = Inr (bp, bs)"
      and le: "bs \<le> bs0"
      and low: "\<forall>q \<in> set rest. bs \<le> ?sc q"
      and pick: "if \<exists>q \<in> set rest. ?sc q < bs0
        then \<exists>i < length rest. bp = Some (rest ! i) \<and> bs = ?sc (rest ! i)
               \<and> (\<forall>k < i. bs < ?sc (rest ! k))
        else bp = bp0 \<and> bs = bs0"
      by blast
    have run': "auto_detect_loop angle_data user_angles (p # rest) (bp0, bs0) = Inr (bp, bs)"
      using step False run by simp
    have low': "\<forall>q \<in> set (p # rest). bs \<le> ?sc q" using le low False by auto
    show ?thesis
    proof (cases "\<exists>q \<in> set rest. ?sc q < bs0")
      case True
      with pick obtain i where i: "i < length rest" "bp = Some (rest ! i)" "bs = ?sc (rest ! i)"
        "\<forall>k < i. bs < ?sc (rest ! k)" by auto
      from True low have "bs < bs0" by fastforce
      with False have "bs < ?sc p" by simp
      with i have "\<forall>k < Suc i. bs < ?sc ((p # rest) ! k)"
        by (auto simp: less_Suc_eq_0_disj)
      with i have "\<exists>i < length (p # rest). bp = Some ((p # rest) ! i)
               \<and> bs = ?sc ((p # rest) ! i)
               \<and> (\<forall>k < i. bs < ?sc ((p # rest) ! k))"
        by (intro exI [of _ "Suc i"]) simp
      moreover have "\<exists>q \<in> set (p # rest). ?sc q < bs0" using True by simp
      ultimately show ?thesis using run' low' le
        by (intro exI [of _ bp] exI [of _ bs]) simp
    next
      case F2: False
      with pick have "bp = bp0" "bs = bs0" by auto
      moreover have "\<not> (\<exists>q \<in> set (p # rest). ?sc q < bs0)" using False F2 by simp
      ultimately show ?thesis using run' low' le
        by (intro exI [of _ bp] exI [of _ bs]) simp
    qed
  qed
qed

lemma auto_detect_pose_result:
  "\<exists>bp bs. auto_detect_pose angle_data user_angles = Inr (bp, bs)
     \<and> bs \<le> 999
     \<and> (\<forall>p \<in> set (POSE_LIST angle_data). bs \<le> score_of angle_data user_angles p)
     \<and> (if \<exists>p \<in> set (POSE_LIST angle_data). score_of angle_data user_angles p < 999
        then \<exists>i < length (POSE_LIST angle_data). bp = Some (POSE_LIST angle_data ! i)
               \<and> bs = score_of angle_data user_angles (POSE_LIST angle_data ! i)
               \<and> (\<forall>k < i. bs < score_of angle_data user_angles (POSE_LIST angle_data ! k))
        else bp = None \<and> bs = 999)"
  unfolding auto_detect_pose_def
  by (rule auto_detect_loop_result) simp

lemma score_of_no_angles:
  assumes "pose \<in> set (POSE_LIST angle_data)"
  shows "score_of angle_data [] pose = 999"
proof -
  from assms obtain data where "map_of angle_data pose = Some data"
    by (auto simp: in_POSE_LIST_iff)
  then show ?thesis by (simp add: score_of_def compare_pose_known compared_joints_Nil)
qed

lemma auto_detect_pose_no_angles: "auto_detect_pose angle_data [] = Inr (None, 999)"
proof -
  have "\<not> (\<exists>p \<in> set (POSE_LIST angle_data). score_of angle_data [] p < 999)"
    by (simp add: score_of_no_angles)
  with auto_detect_pose_result [of angle_data "[]"] show ?thesis by auto
qed

text \<open>
  Claim C1, at the empty measurement. The table has two poses, and the auto-detector
  returns no pose name with the score 999: every pose scores 999 there, and the loop keeps
  a pose only for a score strictly below its initial best score 999. The lemma
  \<open>auto_detect_pose_result\<close> above is what holds in general: the returned score is at
  most the score of every pose of the table, and the returned name is the first pose with
  that score when some pose scores below 999, and no name otherwise.
\<close>

theorem auto_detect_pose_returns_no_pose:
  "POSE_LIST example_catalog = [''Tree'', ''Warrior'']
   \<and> auto_detect_pose example_catalog [] = Inr (None, 999)"
  by (simp add: auto_detect_pose_no_angles) (simp add: POSE_LIST_def example_catalog_def)

subsection \<open>The example frames\<close>

lemma still_angles: "get_all_angles example_lms still_landmarks = []"
  by (simp add: get_all_angles_def JOINTS_def joint_angle_def get_landmark_point_def
      example_lms_def still_landmarks_def calculate_angle_def vsub_def dot_def linalg_norm_def)

lemma bent_angles:
  "get_all_angles example_lms bent_landmarks = [(''left_knee'', 90), (''left_hip'', 0)]"
  by (simp add: get_all_angles_def JOINTS_def joint_angle_def get_landmark_point_def
      example_lms_def bent_landmarks_def calculate_angle_def vsub_def dot_def linalg_norm_def
      clip_def degrees_def)

lemma bent_Tree:
  "compare_pose example_catalog [(''left_knee'', 90), (''left_hip'', 0)] (Some ''Tree'') =
     Inr (70, [Increase ''left_knee'' 70])"
  by (simp add: compare_pose_def example_catalog_def mean_def)

lemma bent_Warrior:
  "compare_pose example_catalog [(''left_knee'', 90), (''left_hip'', 0)] (Some ''Warrior'') =
     Inr (10, [Increase ''left_knee'' 10])"
  by (simp add: compare_pose_def example_catalog_def mean_def)

lemma bent_auto:
  "auto_detect_pose example_catalog [(''left_knee'', 90), (''left_hip'', 0)] =
     Inr (Some ''Warrior'', 10)"
proof -
  have "POSE_LIST example_catalog = [''Tree'', ''Warrior'']"
    by (simp add: POSE_LIST_def example_catalog_def)
  then show ?thesis
    by (simp add: auto_detect_pose_def bent_Tree bent_Warrior)
qed

lemma example_env_fields:
  "ANGLE_DATA example_env = example_catalog"
  "POSE_LMS example_env = example_lms"
  "imdecode example_env ''junk'' = Inr None"
  "imdecode example_env ''blank'' = Inr (Some ''blank'')"
  "imdecode example_env ''still'' = Inr (Some ''still'')"
  "imdecode example_env ''bent'' = Inr (Some ''bent'')"
  "pose_process example_env ''blank'' = None"
  "pose_process example_env ''still'' = Some still_landmarks"
  "pose_process example_env ''bent'' = Some bent_landmarks"
  "imdecode example_env [] = Inl CvError"
  by (simp_all add: example_env_def)

lemma bent_manual_image:
  "analyze_image example_env ''bent'' (Some ''Warrior'') =
     Inr (Some ''Warrior'', 10, [Increase ''left_knee'' 10], [(''left_knee'', 90), (''left_hip'', 0)])"
  by (simp add: analyze_image_def example_env_fields bent_angles bent_Warrior)

lemma bent_auto_image:
  "analyze_image example_env ''bent'' None =
     Inr (Some ''Warrior'', 10, [Increase ''left_knee'' 10], [(''left_knee'', 90), (''left_hip'', 0)])"
  by (simp add: analyze_image_def example_env_fields bent_angles bent_auto bent_Warrior)

subsection \<open>The analyze endpoint: outcomes and the store\<close>

lemma analyze_image_no_landmarks:
  "pose_process e frame = None \<Longrightarrow>
     analyze_image e frame pose_name = Inl (ValueError ''No pose detected'')"
  by (simp add: analyze_image_def)

lemma analyze_pose_Inr:
  assumes "imdecode e contents = Inr (Some frame)"
    and "analyze_image e frame (if mode = ''manual'' \<and> truthy pose_name then pose_name else None) =
       Inr (pn, s, hs, angs)"
  shows "analyze_pose e db contents mode pose_name =
     (Response \<lparr>response_pose_name = pn, response_score = s,
                response_hints = hs, response_angles = angs\<rparr>,
      db @ [\<lparr>attempt_pose_name = pn, attempt_score = s,
             attempt_success = (s < 10), attempt_hints = hs\<rparr>])"
  using assms by (simp add: analyze_pose_def)

lemma analyze_pose_Inl:
  assumes "imdecode e contents = Inr (Some frame)"
    and "analyze_image e frame (if mode = ''manual'' \<and> truthy pose_name then pose_name else None) =
       Inl err"
  shows "analyze_pose e db contents mode pose_name =
     (case err of ValueError msg \<Rightarrow> HTTPException 400 msg | KeyError \<Rightarrow> Unhandled KeyError
        | IndexError \<Rightarrow> Unhandled IndexError | CvError \<Rightarrow> Unhandled CvError, db)"
  using assms by (cases err) (simp_all add: analyze_pose_def)

lemma analyze_pose_store:
  "\<exists>out new. analyze_pose e db contents mode pose_name = (out, db @ new)
     \<and> (new = [] \<or> (\<exists>pn s hs. new = [\<lparr>attempt_pose_name = pn, attempt_score = s,
             attempt_success = (s < 10), attempt_hints = hs\<rparr>]))"
proof -
  consider err where "imdecode e contents = Inl err"
    | "imdecode e contents = Inr None"
    | frame where "imdecode e contents = Inr (Some frame)"
    by (cases "imdecode e contents") auto
  then show ?thesis
  proof cases
    case 1
    then show ?thesis by (simp add: analyze_pose_def)
  next
    case 2
    then show ?thesis by (simp add: analyze_pose_def)
  next
    case 3
    let ?eff = "if mode = ''manual'' \<and> truthy pose_name then pose_name else None"
    show ?thesis
    proof (cases "analyze_image e frame ?eff")
      case (Inl err)
      from analyze_pose_Inl [OF 3 Inl] show ?thesis by simp
    next
      case (Inr res)
      obtain pn s hs angs where "res = (pn, s, hs, angs)" by (cases res)
      with Inr analyze_pose_Inr [OF 3, of mode pose_name pn s hs angs db] show ?thesis
        by simp
    qed
  qed
qed

text \<open>
  Claim C5. The analyze endpoint is the only writer of the store, and it writes the flag
  as \<open>score < 10\<close>: if the flag of every record of the store is true exactly when its
  score is below 10, the same holds of the store after any request. In the example the new
  record has the score 10 and the flag false.
\<close>

theorem attempt_success_iff_score_below_10:
  assumes "analyze_pose e db contents mode pose_name = (out, db')"
    and "\<forall>a \<in> set db. attempt_success a = (attempt_score a < 10)"
  shows "\<forall>a \<in> set db'. attempt_success a = (attempt_score a < 10)"
proof -
  from analyze_pose_store [of e db contents mode pose_name] assms(1)
  obtain new where db': "db' = db @ new"
    and new: "new = [] \<or> (\<exists>pn s hs. new = [\<lparr>attempt_pose_name = pn, attempt_score = s,
             attempt_success = (s < 10), attempt_hints = hs\<rparr>])"
    by auto
  from new have "\<forall>a \<in> set new. attempt_success a = (attempt_score a < 10)" by auto
  with assms(2) db' show ?thesis by auto
qed

theorem attempt_success_iff_score_below_10_witness:
  "\<exists>out a. analyze_pose example_env
       [\<lparr>attempt_pose_name = Some ''Tree'', attempt_score = 3, attempt_success = True,
         attempt_hints = []\<rparr>] ''bent'' ''manual'' (Some ''Warrior'') =
       (out, [\<lparr>attempt_pose_name = Some ''Tree'', attempt_score = 3, attempt_success = True,
               attempt_hints = []\<rparr>, a])
     \<and> attempt_score a = 10 \<and> \<not> attempt_success a"
proof -
  let ?old = "\<lparr>attempt_pose_name = Some ''Tree'', attempt_score = 3, attempt_success = True,
         attempt_hints = []\<rparr>"
  let ?a = "\<lparr>attempt_pose_name = Some ''Warrior'', attempt_score = 10,
         attempt_success = ((10 :: real) < 10), attempt_hints = [Increase ''left_knee'' 10]\<rparr>"
  let ?out = "Response \<lparr>response_pose_name = Some ''Warrior'', response_score = 10,
         response_hints = [Increase ''left_knee'' 10],
         response_angles = [(''left_knee'', 90), (''left_hip'', 0)]\<rparr>"
  have run: "analyze_pose example_env [?old] ''bent'' ''manual'' (Some ''Warrior'') =
      (?out, [?old, ?a])"
    using analyze_pose_Inr [of example_env "''bent''" "''bent''" "''manual''" "Some ''Warrior''"
        "Some ''Warrior''" 10 "[Increase ''left_knee'' 10]" "[(''left_knee'', 90), (''left_hip'', 0)]" "[?old]"]
    by (simp add: example_env_fields truthy_def bent_manual_image)
  have inv: "\<forall>a \<in> set [?old]. attempt_success a = (attempt_score a < 10)" by simp
  from attempt_success_iff_score_below_10 [OF run inv]
  have "attempt_success ?a = (attempt_score ?a < 10)" by simp
  then have "\<not> attempt_success ?a" by simp
  moreover have "attempt_score ?a = 10" by simp
  ultimately show ?thesis using run by blast
qed

lemma analyze_pose_decoder_raises:
  "imdecode e contents = Inl err \<Longrightarrow>
     analyze_pose e db contents mode pose_name = (Unhandled err, db)"
  by (simp add: analyze_pose_def)

lemma analyze_pose_undecodable:
  "imdecode e contents = Inr None \<Longrightarrow>
     analyze_pose e db contents mode pose_name = (HTTPException 400 ''Invalid image'', db)"
  by (simp add: analyze_pose_def)

lemma analyze_pose_no_pose:
  assumes "imdecode e contents = Inr (Some frame)" and "pose_process e frame = None"
  shows "analyze_pose e db contents mode pose_name =
     (HTTPException 400 ''No pose detected'', db)"
proof -
  let ?eff = "if mode = ''manual'' \<and> truthy pose_name then pose_name else None"
  have "analyze_image e frame ?eff = Inl (ValueError ''No pose detected'')"
    using assms(2) by (rule analyze_image_no_landmarks)
  from analyze_pose_Inl [OF assms(1) this]
  show ?thesis by simp
qed

text \<open>
  The two failures that the endpoint handles: a decoder that returns no frame, and a frame
  without landmarks. Both end with status 400 and leave the store as it was.
\<close>

lemma analyze_pose_handled_failures:
  assumes "imdecode e contents = Inr None
     \<or> (\<exists>frame. imdecode e contents = Inr (Some frame) \<and> pose_process e frame = None)"
  shows "\<exists>detail. analyze_pose e db contents mode pose_name = (HTTPException 400 detail, db)"
  using assms
proof (elim disjE exE conjE)
  assume "imdecode e contents = Inr None"
  then have "analyze_pose e db contents mode pose_name =
      (HTTPException 400 ''Invalid image'', db)"
    by (rule analyze_pose_undecodable)
  then show ?thesis by (rule exI [of _ "''Invalid image''"])
next
  fix frame
  assume "imdecode e contents = Inr (Some frame)" and "pose_process e frame = None"
  then have "analyze_pose e db contents mode pose_name =
      (HTTPException 400 ''No pose detected'', db)"
    by (rule analyze_pose_no_pose)
  then show ?thesis by (rule exI [of _ "''No pose detected''"])
qed

text \<open>
  Claim C6, at the empty upload. The decoder raises there, the call stands before the
  \<^verbatim>\<open>try\<close> block, and the request ends with that exception unhandled, not with status
  400. The store is unchanged. The upload that is no image and the frame without a body,
  next to it, do end with status 400.
\<close>

theorem analyze_pose_empty_upload_unhandled:
  "analyze_pose example_env
       [\<lparr>attempt_pose_name = Some ''Tree'', attempt_score = 3, attempt_success = True,
         attempt_hints = []\<rparr>] [] ''auto'' None =
     (Unhandled CvError,
       [\<lparr>attempt_pose_name = Some ''Tree'', attempt_score = 3, attempt_success = True,
         attempt_hints = []\<rparr>])
   \<and> analyze_pose example_env
       [\<lparr>attempt_pose_name = Some ''Tree'', attempt_score = 3, attempt_success = True,
         attempt_hints = []\<rparr>] ''junk'' ''auto'' None =
     (HTTPException 400 ''Invalid image'',
       [\<lparr>attempt_pose_name = Some ''Tree'', attempt_score = 3, attempt_success = True,
         attempt_hints = []\<rparr>])
   \<and> analyze_pose example_env [] ''blank'' ''manual'' (Some ''Tree'') =
     (HTTPException 400 ''No pose detected'', [])"
proof (intro conjI)
  show "analyze_pose example_env
       [\<lparr>attempt_pose_name = Some ''Tree'', attempt_score = 3, attempt_success = True,
         attempt_hints = []\<rparr>] [] ''auto'' None =
     (Unhandled CvError,
       [\<lparr>attempt_pose_name = Some ''Tree'', attempt_score = 3, attempt_success = True,
         attempt_hints = []\<rparr>])"
    by (rule analyze_pose_decoder_raises [OF example_env_fields(10)])
next
  show "analyze_pose example_env
       [\<lparr>attempt_pose_name = Some ''Tree'', attempt_score = 3, attempt_success = True,
         attempt_hints = []\<rparr>] ''junk'' ''auto'' None =
     (HTTPException 400 ''Invalid image'',
       [\<lparr>attempt_pose_name = Some ''Tree'', attempt_score = 3, attempt_success = True,
         attempt_hints = []\<rparr>])"
    by (rule analyze_pose_undecodable [OF example_env_fields(3)])
next
  show "analyze_pose example_env [] ''blank'' ''manual'' (Some ''Tree'') =
     (HTTPException 400 ''No pose detected'', [])"
    by (rule analyze_pose_no_pose [OF example_env_fields(4) example_env_fields(7)])
qed

text \<open>
  Claim C8. When the mode is not \<^verbatim>\<open>"manual"\<close>, or the supplied pose name is the empty
  string, the endpoint returns the outcome and the store of a request without a pose name,
  whatever the mode of that request. In the example the name \<open>Tree\<close> is supplied in mode
  \<^verbatim>\<open>"auto"\<close> and the answer is the auto-detected pose \<open>Warrior\<close>.
\<close>

theorem analyze_pose_name_ignored:
  assumes "mode \<noteq> ''manual'' \<or> pose_name = Some []"
  shows "analyze_pose e db contents mode pose_name = analyze_pose e db contents mode' None"
  using assms by (auto simp: analyze_pose_def truthy_def)

theorem analyze_pose_name_ignored_witness:
  "analyze_pose example_env [] ''bent'' ''auto'' (Some ''Tree'') =
     analyze_pose example_env [] ''bent'' ''auto'' None
   \<and> analyze_pose example_env [] ''bent'' ''auto'' (Some ''Tree'') =
     (Response \<lparr>response_pose_name = Some ''Warrior'', response_score = 10,
         response_hints = [Increase ''left_knee'' 10],
         response_angles = [(''left_knee'', 90), (''left_hip'', 0)]\<rparr>,
      [\<lparr>attempt_pose_name = Some ''Warrior'', attempt_score = 10,
         attempt_success = False, attempt_hints = [Increase ''left_knee'' 10]\<rparr>])"
proof -
  have h: "''auto'' \<noteq> ''manual'' \<or> Some ''Tree'' = Some []" by simp
  have same: "analyze_pose example_env [] ''bent'' ''auto'' (Some ''Tree'') =
      analyze_pose example_env [] ''bent'' ''auto'' None"
    by (rule analyze_pose_name_ignored [OF h])
  have "analyze_pose example_env [] ''bent'' ''auto'' None =
     (Response \<lparr>response_pose_name = Some ''Warrior'', response_score = 10,
         response_hints = [Increase ''left_knee'' 10],
         response_angles = [(''left_knee'', 90), (''left_hip'', 0)]\<rparr>,
      [\<lparr>attempt_pose_name = Some ''Warrior'', attempt_score = 10,
         attempt_success = False, attempt_hints = [Increase ''left_knee'' 10]\<rparr>])"
    using analyze_pose_Inr [of example_env "''bent''" "''bent''" "''auto''" None
        "Some ''Warrior''" 10 "[Increase ''left_knee'' 10]" "[(''left_knee'', 90), (''left_hip'', 0)]" "[]"]
    by (simp add: example_env_fields bent_auto_image)
  with same show ?thesis by simp
qed

text \<open>
  Claim C9. For a name that is not a key of the table the comparator raises
  \<^verbatim>\<open>KeyError\<close>. Nothing checks the name before: a request in manual mode with such a
  name, on a frame with landmarks, ends with that exception unhandled, not with an
  \<^verbatim>\<open>HTTPException\<close>, and the store is unchanged.
\<close>

theorem compare_pose_unknown_name:
  assumes "name \<notin> set (POSE_LIST (ANGLE_DATA e))"
  shows "compare_pose (ANGLE_DATA e) user_angles (Some name) = Inl KeyError
    \<and> (imdecode e contents = Inr (Some frame) \<and> pose_process e frame = Some lm
         \<and> name \<noteq> [] \<longrightarrow>
         analyze_image e frame (Some name) = Inl KeyError
       \<and> analyze_pose e db contents ''manual'' (Some name) = (Unhandled KeyError, db))"
proof -
  from assms have none: "map_of (ANGLE_DATA e) name = None"
    by (simp add: POSE_LIST_def map_of_eq_None_iff)
  then have cp: "compare_pose (ANGLE_DATA e) ua (Some name) = Inl KeyError" for ua
    by (simp add: compare_pose_def)
  have "analyze_image e frame (Some name) = Inl KeyError
       \<and> analyze_pose e db contents ''manual'' (Some name) = (Unhandled KeyError, db)"
    if dec: "imdecode e contents = Inr (Some frame)" and lm: "pose_process e frame = Some lm"
      and ne: "name \<noteq> []"
  proof -
    have img: "analyze_image e frame (Some name) = Inl KeyError"
      using lm by (simp add: analyze_image_def cp)
    with analyze_pose_Inl [OF dec, of "''manual''" "Some name" KeyError db] ne
    show ?thesis by (simp add: truthy_def)
  qed
  with cp show ?thesis by blast
qed

theorem compare_pose_unknown_name_witness:
  "compare_pose example_catalog [(''left_knee'', 150)] (Some ''Crow'') = Inl KeyError
   \<and> analyze_pose example_env [] ''bent'' ''manual'' (Some ''Crow'') = (Unhandled KeyError, [])"
proof -
  have h: "''Crow'' \<notin> set (POSE_LIST (ANGLE_DATA example_env))"
    by (simp add: example_env_fields POSE_LIST_def example_catalog_def)
  from compare_pose_unknown_name [OF h, of "[(''left_knee'', 150)]" "''bent''" "''bent''"
      bent_landmarks "[]"]
  show ?thesis by (simp add: example_env_fields)
qed

text \<open>
  Claim C3. When the frame decodes and has landmarks but the angle extractor returns the
  empty mapping, a request that auto-detects gets no pose name from the auto-detector, the
  comparator called with that missing name raises \<^verbatim>\<open>KeyError\<close>, and the request ends
  with that exception unhandled; the store is unchanged.
\<close>

theorem analyze_pose_no_angles_unhandled:
  assumes "imdecode e contents = Inr (Some frame)"
    and "pose_process e frame = Some lm"
    and "get_all_angles (POSE_LMS e) lm = []"
    and "mode \<noteq> ''manual'' \<or> \<not> truthy pose_name"
  shows "auto_detect_pose (ANGLE_DATA e) (get_all_angles (POSE_LMS e) lm) = Inr (None, 999)
    \<and> compare_pose (ANGLE_DATA e) (get_all_angles (POSE_LMS e) lm) None = Inl KeyError
    \<and> analyze_image e frame None = Inl KeyError
    \<and> analyze_pose e db contents mode pose_name = (Unhandled KeyError, db)"
proof -
  have auto: "auto_detect_pose (ANGLE_DATA e) (get_all_angles (POSE_LMS e) lm) = Inr (None, 999)"
    by (simp add: assms(3) auto_detect_pose_no_angles)
  have cp: "compare_pose (ANGLE_DATA e) (get_all_angles (POSE_LMS e) lm) None = Inl KeyError"
    by (simp add: compare_pose_def)
  have img: "analyze_image e frame None = Inl KeyError"
    using assms(2) auto cp by (simp add: analyze_image_def)
  from assms(4) have eff: "(if mode = ''manual'' \<and> truthy pose_name then pose_name else None) = None"
    by auto
  from analyze_pose_Inl [OF assms(1), of mode pose_name KeyError db] img eff
  have "analyze_pose e db contents mode pose_name = (Unhandled KeyError, db)" by simp
  with auto cp img show ?thesis by blast
qed

theorem analyze_pose_no_angles_unhandled_witness:
  "analyze_pose example_env [] ''still'' ''auto'' None = (Unhandled KeyError, [])"
proof -
  have h3: "get_all_angles (POSE_LMS example_env) still_landmarks = []"
    by (simp add: example_env_fields still_angles)
  have h4: "''auto'' \<noteq> ''manual'' \<or> \<not> truthy None" by simp
  from analyze_pose_no_angles_unhandled [OF example_env_fields(5) example_env_fields(8) h3 h4, of "[]"]
  show ?thesis by simp
qed

subsection \<open>The angle extractor\<close>

lemma update_fresh:
  "j \<notin> fst ` set al \<Longrightarrow> AList.update j v al = al @ [(j, v)]"
  by (induction al) auto

lemma joint_entry_fst: "joint_entry lms landmarks jp = Some (j, ang) \<Longrightarrow> j = fst jp"
  by (cases jp) (auto simp: joint_entry_def split: sum.splits option.splits)

lemma map_filter_keys:
  "fst ` set (List.map_filter (joint_entry lms landmarks) js) \<subseteq> fst ` set js"
proof (induction js)
  case Nil
  show ?case by simp
next
  case (Cons jp js)
  show ?case
  proof (cases "joint_entry lms landmarks jp")
    case None
    with Cons show ?thesis by auto
  next
    case (Some ja)
    obtain j ang where "ja = (j, ang)" by (cases ja)
    with Some joint_entry_fst [of lms landmarks jp j ang] have "fst ja = fst jp" by simp
    with Some Cons show ?thesis by auto
  qed
qed

lemma get_all_angles_loop_acc:
  assumes "distinct (map fst js)" and "fst ` set acc \<inter> fst ` set js = {}"
  shows "get_all_angles_loop lms landmarks js acc =
     acc @ List.map_filter (joint_entry lms landmarks) js"
  using assms
proof (induction js arbitrary: acc)
  case Nil
  show ?case by simp
next
  case (Cons jp js)
  obtain j ps where jp: "jp = (j, ps)" by (cases jp)
  from Cons.prems have fresh: "j \<notin> fst ` set acc" and dist: "distinct (map fst js)"
    and j_js: "j \<notin> fst ` set js" and disj: "fst ` set acc \<inter> fst ` set js = {}"
    by (auto simp: jp)
  show ?case
  proof (cases "joint_entry lms landmarks jp")
    case None
    then have "(case joint_angle lms landmarks ps of Inl e \<Rightarrow> acc | Inr None \<Rightarrow> acc
        | Inr (Some ang) \<Rightarrow> AList.update j ang acc) = acc"
      by (auto simp: joint_entry_def jp split: sum.splits option.splits)
    with None Cons.IH [OF dist disj] show ?thesis by (simp add: jp)
  next
    case (Some ja)
    then obtain ang where ja: "ja = (j, ang)" and ang: "joint_angle lms landmarks ps = Inr (Some ang)"
      by (auto simp: joint_entry_def jp split: sum.splits option.splits)
    have step: "(case joint_angle lms landmarks ps of Inl e \<Rightarrow> acc | Inr None \<Rightarrow> acc
        | Inr (Some ang) \<Rightarrow> AList.update j ang acc) = acc @ [(j, ang)]"
      by (simp add: ang update_fresh [OF fresh])
    have "fst ` set (acc @ [(j, ang)]) \<inter> fst ` set js = {}"
      using disj j_js by auto
    from Cons.IH [OF dist this] Some ja step show ?thesis by (simp add: jp)
  qed
qed

lemma JOINTS_distinct: "distinct (map fst JOINTS)"
  by (simp add: JOINTS_def)

lemma get_all_angles_map_filter:
  "get_all_angles lms landmarks = List.map_filter (joint_entry lms landmarks) JOINTS"
  using get_all_angles_loop_acc [OF JOINTS_distinct, of "[]" lms landmarks]
  by (simp add: get_all_angles_def)

lemma linalg_norm_zero_iff: "linalg_norm v = 0 \<longleftrightarrow> v = (0, 0, 0)"
proof -
  obtain x y z where v: "v = (x, y, z)" by (cases v)
  have "x * x + y * y + z * z = 0 \<longleftrightarrow> x = 0 \<and> y = 0 \<and> z = 0"
    by (metis add_nonneg_eq_0_iff mult_eq_0_iff zero_le_square add_nonneg_nonneg)
  then show ?thesis by (simp add: linalg_norm_def dot_def v)
qed

lemma in_set_map_filter:
  "y \<in> set (List.map_filter f xs) \<longleftrightarrow> (\<exists>x \<in> set xs. f x = Some y)"
  by (induction xs) (auto split: option.splits)

lemma in_map_filter_joints:
  assumes "(j, ps) \<in> set JOINTS"
  shows "(j, ang) \<in> set (get_all_angles lms landmarks) \<longleftrightarrow>
     joint_angle lms landmarks ps = Inr (Some ang)"
proof
  assume "(j, ang) \<in> set (get_all_angles lms landmarks)"
  then obtain jp where jp: "jp \<in> set JOINTS" "joint_entry lms landmarks jp = Some (j, ang)"
    by (auto simp: get_all_angles_map_filter in_set_map_filter)
  obtain j' ps' where jp': "jp = (j', ps')" by (cases jp)
  from jp(2) have "j' = j" and a: "joint_angle lms landmarks ps' = Inr (Some ang)"
    by (auto simp: joint_entry_def jp' split: sum.splits option.splits)
  with jp(1) jp' have "(j, ps') \<in> set JOINTS" by simp
  with assms JOINTS_distinct have "ps' = ps" by (meson eq_key_imp_eq_value)
  with a show "joint_angle lms landmarks ps = Inr (Some ang)" by simp
next
  assume "joint_angle lms landmarks ps = Inr (Some ang)"
  then have "joint_entry lms landmarks (j, ps) = Some (j, ang)"
    by (simp add: joint_entry_def)
  with assms show "(j, ang) \<in> set (get_all_angles lms landmarks)"
    by (force simp: get_all_angles_map_filter in_set_map_filter)
qed


lemma calculate_angle_degenerate:
  assumes "linalg_norm (vsub a b) = 0 \<or> linalg_norm (vsub c b) = 0"
  shows "calculate_angle a b c = None"
  using assms by (auto simp: calculate_angle_def Let_def)

lemma joint_angle_resolved:
  assumes "get_landmark_point lms landmarks p1 = Inr a"
    and "get_landmark_point lms landmarks p2 = Inr b"
    and "get_landmark_point lms landmarks p3 = Inr c"
  shows "joint_angle lms landmarks (p1, p2, p3) = Inr (calculate_angle a b c)"
  using assms by (simp add: joint_angle_def)

lemma joint_angle_raises:
  assumes "get_landmark_point lms landmarks p1 = Inl err
    \<or> get_landmark_point lms landmarks p2 = Inl err
    \<or> get_landmark_point lms landmarks p3 = Inl err"
  shows "\<exists>err'. joint_angle lms landmarks (p1, p2, p3) = Inl err'"
  using assms by (auto simp: joint_angle_def split: sum.splits)

lemma omitted_joint:
  assumes "(j, ps) \<in> set JOINTS"
    and "\<And>ang. joint_angle lms landmarks ps \<noteq> Inr (Some ang)"
  shows "j \<notin> fst ` set (get_all_angles lms landmarks)"
proof
  assume "j \<in> fst ` set (get_all_angles lms landmarks)"
  then obtain ang where "(j, ang) \<in> set (get_all_angles lms landmarks)" by auto
  with in_map_filter_joints [OF assms(1)] have "joint_angle lms landmarks ps = Inr (Some ang)"
    by simp
  with assms(2) [of ang] show False by (rule notE)
qed

text \<open>
  Claim C7. When one of the two vectors from the vertex has length zero the angle
  computation returns no value, and the try block of a joint whose three points resolve
  then yields no angle; when a landmark of the joint does not resolve the try block
  raises. The angle extractor itself never raises: it returns, in the order of
  \<^const>\<open>JOINTS\<close>, the joints whose try block yields an angle, each with that angle. A joint
  whose try block raises or yields no angle is not a key of the result, and every other
  joint is in the result with its angle.
\<close>

theorem get_all_angles_partial:
  "(linalg_norm (vsub a b) = 0 \<or> linalg_norm (vsub c b) = 0 \<longrightarrow> calculate_angle a b c = None)
   \<and> (get_landmark_point lms landmarks p1 = Inr a \<and> get_landmark_point lms landmarks p2 = Inr b
        \<and> get_landmark_point lms landmarks p3 = Inr c
        \<and> (linalg_norm (vsub a b) = 0 \<or> linalg_norm (vsub c b) = 0) \<longrightarrow>
      joint_angle lms landmarks (p1, p2, p3) = Inr None)
   \<and> (get_landmark_point lms landmarks p1 = Inl err \<or> get_landmark_point lms landmarks p2 = Inl err
        \<or> get_landmark_point lms landmarks p3 = Inl err \<longrightarrow>
      (\<exists>err'. joint_angle lms landmarks (p1, p2, p3) = Inl err'))
   \<and> get_all_angles lms landmarks = List.map_filter (joint_entry lms landmarks) JOINTS
   \<and> (\<forall>(j, ps) \<in> set JOINTS.
        (\<forall>err'. joint_angle lms landmarks ps = Inl err' \<longrightarrow>
           j \<notin> fst ` set (get_all_angles lms landmarks))
      \<and> (joint_angle lms landmarks ps = Inr None \<longrightarrow>
           j \<notin> fst ` set (get_all_angles lms landmarks))
      \<and> (\<forall>ang. joint_angle lms landmarks ps = Inr (Some ang) \<longrightarrow>
           (j, ang) \<in> set (get_all_angles lms landmarks)))"
proof -
  have c1: "linalg_norm (vsub a b) = 0 \<or> linalg_norm (vsub c b) = 0 \<longrightarrow>
      calculate_angle a b c = None"
    by (simp add: calculate_angle_degenerate)
  have c2: "get_landmark_point lms landmarks p1 = Inr a \<and> get_landmark_point lms landmarks p2 = Inr b
        \<and> get_landmark_point lms landmarks p3 = Inr c
        \<and> (linalg_norm (vsub a b) = 0 \<or> linalg_norm (vsub c b) = 0) \<longrightarrow>
      joint_angle lms landmarks (p1, p2, p3) = Inr None"
    by (simp add: joint_angle_resolved calculate_angle_degenerate)
  have c3: "get_landmark_point lms landmarks p1 = Inl err \<or> get_landmark_point lms landmarks p2 = Inl err
        \<or> get_landmark_point lms landmarks p3 = Inl err \<longrightarrow>
      (\<exists>err'. joint_angle lms landmarks (p1, p2, p3) = Inl err')"
    using joint_angle_raises [of lms landmarks p1 err p2 p3] by blast
  have c5: "(\<forall>err'. joint_angle lms landmarks ps = Inl err' \<longrightarrow>
           j \<notin> fst ` set (get_all_angles lms landmarks))
      \<and> (joint_angle lms landmarks ps = Inr None \<longrightarrow>
           j \<notin> fst ` set (get_all_angles lms landmarks))
      \<and> (\<forall>ang. joint_angle lms landmarks ps = Inr (Some ang) \<longrightarrow>
           (j, ang) \<in> set (get_all_angles lms landmarks))"
    if mem: "(j, ps) \<in> set JOINTS" for j ps
  proof (intro conjI allI impI)
    fix err' assume "joint_angle lms landmarks ps = Inl err'"
    then show "j \<notin> fst ` set (get_all_angles lms landmarks)"
      by (intro omitted_joint [OF mem]) simp
  next
    assume "joint_angle lms landmarks ps = Inr None"
    then show "j \<notin> fst ` set (get_all_angles lms landmarks)"
      by (intro omitted_joint [OF mem]) simp
  next
    fix ang assume "joint_angle lms landmarks ps = Inr (Some ang)"
    then show "(j, ang) \<in> set (get_all_angles lms landmarks)"
      by (simp add: in_map_filter_joints [OF mem])
  qed
  then have c5': "\<forall>(j, ps) \<in> set JOINTS.
        (\<forall>err'. joint_angle lms landmarks ps = Inl err' \<longrightarrow>
           j \<notin> fst ` set (get_all_angles lms landmarks))
      \<and> (joint_angle lms landmarks ps = Inr None \<longrightarrow>
           j \<notin> fst ` set (get_all_angles lms landmarks))
      \<and> (\<forall>ang. joint_angle lms landmarks ps = Inr (Some ang) \<longrightarrow>
           (j, ang) \<in> set (get_all_angles lms landmarks))"
    by blast
  from c1 c2 c3 get_all_angles_map_filter [of lms landmarks] c5' show ?thesis
    by (intro conjI)
qed

lemma no_landmarks_angles: "get_all_angles example_lms [] = []"
  by (simp add: get_all_angles_def JOINTS_def joint_angle_def get_landmark_point_def
      example_lms_def)

theorem get_all_angles_partial_witness:
  "calculate_angle (0, 0, 0) (0, 0, 0) (1, 0, 0) = None
   \<and> joint_angle example_lms still_landmarks (''LEFT_HIP'', ''LEFT_KNEE'', ''LEFT_ANKLE'') = Inr None
   \<and> ''left_knee'' \<notin> fst ` set (get_all_angles example_lms still_landmarks)
   \<and> (\<exists>err'. joint_angle example_lms [] (''LEFT_HIP'', ''LEFT_KNEE'', ''LEFT_ANKLE'') = Inl err')
   \<and> get_all_angles example_lms [] = []
   \<and> get_all_angles example_lms bent_landmarks = [(''left_knee'', 90), (''left_hip'', 0)]"
proof -
  have z: "linalg_norm (vsub (0, 0, 0) (0, 0, 0)) = 0 \<or> linalg_norm (vsub (1, 0, 0) (0, 0, 0)) = 0"
    by (simp add: linalg_norm_def vsub_def dot_def)
  have pts: "get_landmark_point example_lms still_landmarks ''LEFT_HIP'' = Inr (0, 0, 0)"
    "get_landmark_point example_lms still_landmarks ''LEFT_KNEE'' = Inr (0, 0, 0)"
    "get_landmark_point example_lms still_landmarks ''LEFT_ANKLE'' = Inr (0, 0, 0)"
    by (simp_all add: get_landmark_point_def example_lms_def still_landmarks_def)
  have err: "get_landmark_point example_lms [] ''LEFT_HIP'' = Inl IndexError"
    by (simp add: get_landmark_point_def example_lms_def)
  have mem: "(''left_knee'', ''LEFT_HIP'', ''LEFT_KNEE'', ''LEFT_ANKLE'') \<in> set JOINTS"
    by (simp add: JOINTS_def)
  note still = get_all_angles_partial [of "(0, 0, 0)" "(0, 0, 0)" "(0, 0, 0)" example_lms
      still_landmarks "''LEFT_HIP''" "''LEFT_KNEE''" "''LEFT_ANKLE''" IndexError]
  note none = get_all_angles_partial [of "(0, 0, 0)" "(0, 0, 0)" "(1, 0, 0)" example_lms
      "[]" "''LEFT_HIP''" "''LEFT_KNEE''" "''LEFT_ANKLE''" IndexError]
  from none z have w1: "calculate_angle (0, 0, 0) (0, 0, 0) (1, 0, 0) = None" by blast
  from still pts have w2:
    "joint_angle example_lms still_landmarks (''LEFT_HIP'', ''LEFT_KNEE'', ''LEFT_ANKLE'') = Inr None"
    by (simp add: linalg_norm_def vsub_def dot_def)
  from still mem w2 have w3: "''left_knee'' \<notin> fst ` set (get_all_angles example_lms still_landmarks)"
    by blast
  from none err have w4:
    "\<exists>err'. joint_angle example_lms [] (''LEFT_HIP'', ''LEFT_KNEE'', ''LEFT_ANKLE'') = Inl err'"
    by blast
  from w1 w2 w3 w4 no_landmarks_angles bent_angles show ?thesis by (intro conjI)
qed

end
